theory Spec2Isabelle
  imports Main "HOL-Library.AList"
begin

text \<open>
  A shallow embedding of the workflow execution route
  \<^verbatim>\<open>src/app/api/scriptforge/workflows/execute/route.js\<close>: the functions \<open>executeSingleAgent\<close>,
  \<open>POST\<close>, \<open>formatAgentOutput\<close> and \<open>generateExecutionSummary\<close>.

  \<^item> The workflow document is a record. A mutation of the document is a record update;
    each function returns the document as it leaves it.
  \<^item> \<open>workflow.save()\<close> writes the document as it stands to the database. The embedding follows
    the runs in which every save succeeds, so the persisted document is the document in
    memory at the last save, and each path of the route ends with a save after its last write.
  \<^item> \<open>executeAgent\<close> (from \<open>@/lib/agents/agent-executor\<close>) and the table \<open>AGENT_DEFINITIONS\<close>
    are not among the sources. They are parameters: an invocation either fails with an error
    or returns a result and an updated context, and it does not write to the objects it is
    given.
  \<^item> An exception is a value: a function that can throw returns \<open>js_error + 'a\<close>, with \<open>Inl\<close>
    for the error thrown.
\<close>

section \<open>JavaScript values\<close>

text \<open>
  Results, contexts and the other dynamically typed data are values of the type \<open>jsval\<close>.
  An object is the list of its own properties in enumeration order, with distinct keys; an
  array is the list of its elements. Numbers are the integers (no fractions, \<open>NaN\<close> or
  infinities; the decimal notation below is the one of JavaScript for integers of magnitude
  below \<open>10^21\<close>). A string is a list of characters, one \<open>char\<close> for one code unit of the
  JavaScript string, so the strings covered are those with code units below 256. Values have
  no methods of their own: an object is a plain object with the prototype \<open>Object.prototype\<close>.

  Objects and arrays can hold references to themselves. \<open>JBack n\<close>, inside an object or
  array, is a reference to the object or array \<open>n\<close> levels further out that encloses it:
  \<open>JObj [(''self'', JBack 0)]\<close> is the object \<open>o\<close> with \<open>o.self === o\<close>. Every finite object graph
  unfolds from its root to such a tree. A value is well formed when every \<open>JBack\<close> in it
  points to an object or array of the value itself; the equations for other occurrences of
  \<open>JBack\<close> are there because functions are total.
\<close>

datatype jsval =
    JUndefined
  | JNull
  | JBool bool
  | JNum int
  | JStr string
  | JArr "jsval list"
  | JObj "(string \<times> jsval) list"
  | JBack nat

text \<open>What is thrown: a \<open>TypeError\<close> of the runtime, or the failure of an agent. Both carry
  the text that \<open>error.message\<close> reads. The texts of the runtime errors are those of Node.js.\<close>

datatype js_error = TypeError string | AgentError string

fun message :: "js_error \<Rightarrow> string" where
  "message (TypeError m) = m"
| "message (AgentError m) = m"

text \<open>\<open>!!v\<close>, and the test \<open>v === null || v === undefined\<close> behind \<open>?.\<close>.\<close>

fun truthy :: "jsval \<Rightarrow> bool" where
  "truthy JUndefined = False"
| "truthy JNull = False"
| "truthy (JBool b) = b"
| "truthy (JNum n) = (n \<noteq> 0)"
| "truthy (JStr s) = (s \<noteq> [])"
| "truthy _ = True"

fun nullish :: "jsval \<Rightarrow> bool" where
  "nullish JUndefined = True"
| "nullish JNull = True"
| "nullish _ = False"

text \<open>\<open>subst d p v\<close> replaces in \<open>v\<close>, which stands \<open>d\<close> levels inside the object or array \<open>p\<close>,
  the references to \<open>p\<close> by \<open>p\<close> itself. Reading a property out of an object applies it, so
  that the value read stands on its own.\<close>

fun subst :: "nat \<Rightarrow> jsval \<Rightarrow> jsval \<Rightarrow> jsval" where
  "subst d p (JBack n) = (if n = d then p else JBack n)"
| "subst d p (JArr vs) = JArr (map (subst (Suc d) p) vs)"
| "subst d p (JObj ps) = JObj (map (\<lambda>(k, v). (k, subst (Suc d) p v)) ps)"
| "subst d p v = v"

text \<open>The decimal notation of an integer.\<close>

fun show_nat :: "nat \<Rightarrow> string" where
  "show_nat n = (if n < 10 then [''0123456789'' ! n]
                 else show_nat (n div 10) @ [''0123456789'' ! (n mod 10)])"

definition show_int :: "int \<Rightarrow> string" where
  "show_int i = (if i < 0 then CHR ''-'' # show_nat (nat (- i)) else show_nat (nat i))"

text \<open>Strings joined with a separator.\<close>

fun join :: "string \<Rightarrow> string list \<Rightarrow> string" where
  "join sep [] = []"
| "join sep [s] = s"
| "join sep (s # t # ss) = s @ sep @ join sep (t # ss)"

text \<open>The conversion to a string that a template literal applies to \<open>${v}\<close>. An array is
  converted by \<open>join(',')\<close>, in which \<open>null\<close>, \<open>undefined\<close> and an array that is already being
  joined give the empty string.\<close>

fun to_str :: "jsval \<Rightarrow> string" where
  "to_str JUndefined = ''undefined''"
| "to_str JNull = ''null''"
| "to_str (JBool b) = (if b then ''true'' else ''false'')"
| "to_str (JNum n) = show_int n"
| "to_str (JStr s) = s"
| "to_str (JArr vs) = join '','' (map (\<lambda>v. if nullish v then [] else to_str v) vs)"
| "to_str (JObj ps) = ''[object Object]''"
| "to_str (JBack n) = []"

text \<open>Sequencing of computations that can throw.\<close>

definition bind_e :: "js_error + 'a \<Rightarrow> ('a \<Rightarrow> js_error + 'b) \<Rightarrow> js_error + 'b" where
  "bind_e m f = (case m of Inl e \<Rightarrow> Inl e | Inr x \<Rightarrow> f x)"

text \<open>The property read \<open>v.k\<close>. It throws on \<open>null\<close> and \<open>undefined\<close>. Arrays and strings have
  a \<open>length\<close>; the other names that the route reads are own properties or absent.\<close>

fun get_prop :: "jsval \<Rightarrow> string \<Rightarrow> js_error + jsval" where
  "get_prop JUndefined k =
     Inl (TypeError (''Cannot read properties of undefined (reading '' @ [CHR 0x27] @ k @ [CHR 0x27] @ '')''))"
| "get_prop JNull k =
     Inl (TypeError (''Cannot read properties of null (reading '' @ [CHR 0x27] @ k @ [CHR 0x27] @ '')''))"
| "get_prop (JObj ps) k =
     Inr (case map_of ps k of None \<Rightarrow> JUndefined | Some v \<Rightarrow> subst 0 (JObj ps) v)"
| "get_prop (JArr vs) k = Inr (if k = ''length'' then JNum (int (length vs)) else JUndefined)"
| "get_prop (JStr s) k = Inr (if k = ''length'' then JNum (int (length s)) else JUndefined)"
| "get_prop v k = Inr JUndefined"

text \<open>\<open>v?.k\<close>, \<open>a || b\<close> and \<open>array.join(sep)\<close>.\<close>

definition opt_prop :: "jsval \<Rightarrow> string \<Rightarrow> jsval" where
  "opt_prop v k = (if nullish v then JUndefined else (case get_prop v k of Inl e \<Rightarrow> JUndefined | Inr x \<Rightarrow> x))"

definition js_or :: "jsval \<Rightarrow> jsval \<Rightarrow> jsval" where
  "js_or a b = (if truthy a then a else b)"

definition js_join :: "string \<Rightarrow> jsval list \<Rightarrow> string" where
  "js_join sep vs = join sep (map (\<lambda>v. if nullish v then [] else to_str v) vs)"

text \<open>\<open>JSON.stringify(v, null, 2)\<close>. A string is quoted with the escapes of JSON. An object
  or array is written over several lines with an indentation of two blanks a level; a property
  whose value is \<open>undefined\<close> is left out, and an element that is \<open>undefined\<close> is written
  \<open>null\<close>. A reference to an enclosing object or array makes the structure circular, on which
  \<open>JSON.stringify\<close> throws a \<open>TypeError\<close>. At the top, \<open>undefined\<close> gives \<open>undefined\<close>.\<close>

definition hex_digit :: "nat \<Rightarrow> char" where
  "hex_digit n = ''0123456789abcdef'' ! n"

definition quote_char :: "char \<Rightarrow> string" where
  "quote_char c =
     (if c = CHR 0x22 then [CHR 0x5C, CHR 0x22]
      else if c = CHR 0x5C then [CHR 0x5C, CHR 0x5C]
      else if c = CHR 0x08 then [CHR 0x5C, CHR ''b'']
      else if c = CHR 0x0C then [CHR 0x5C, CHR ''f'']
      else if c = CHR 0x0A then [CHR 0x5C, CHR ''n'']
      else if c = CHR 0x0D then [CHR 0x5C, CHR ''r'']
      else if c = CHR 0x09 then [CHR 0x5C, CHR ''t'']
      else if (of_char c :: nat) < 32
        then [CHR 0x5C, CHR ''u'', CHR ''0'', CHR ''0'',
              hex_digit ((of_char c :: nat) div 16), hex_digit ((of_char c :: nat) mod 16)]
      else [c])"

definition quote :: "string \<Rightarrow> string" where
  "quote s = [CHR 0x22] @ concat (map quote_char s) @ [CHR 0x22]"

fun serialize :: "string \<Rightarrow> jsval \<Rightarrow> js_error + string option"
  and serialize_elems :: "string \<Rightarrow> jsval list \<Rightarrow> js_error + string list"
  and serialize_props :: "string \<Rightarrow> (string \<times> jsval) list \<Rightarrow> js_error + string list"
where
  "serialize ind JUndefined = Inr None"
| "serialize ind JNull = Inr (Some ''null'')"
| "serialize ind (JBool b) = Inr (Some (if b then ''true'' else ''false''))"
| "serialize ind (JNum n) = Inr (Some (show_int n))"
| "serialize ind (JStr s) = Inr (Some (quote s))"
| "serialize ind (JBack n) = Inl (TypeError ''Converting circular structure to JSON'')"
| "serialize ind (JArr vs) =
     (case serialize_elems (ind @ ''  '') vs of
        Inl e \<Rightarrow> Inl e
      | Inr parts \<Rightarrow>
          Inr (Some (if parts = [] then ''[]''
                     else ''['' @ [CHR 0x0A] @ ind @ ''  ''
                          @ join ('','' @ [CHR 0x0A] @ ind @ ''  '') parts
                          @ [CHR 0x0A] @ ind @ '']'')))"
| "serialize ind (JObj ps) =
     (case serialize_props (ind @ ''  '') ps of
        Inl e \<Rightarrow> Inl e
      | Inr parts \<Rightarrow>
          Inr (Some (if parts = [] then ''{}''
                     else ''{'' @ [CHR 0x0A] @ ind @ ''  ''
                          @ join ('','' @ [CHR 0x0A] @ ind @ ''  '') parts
                          @ [CHR 0x0A] @ ind @ ''}'')))"
| "serialize_elems ind [] = Inr []"
| "serialize_elems ind (v # vs) =
     (case serialize ind v of
        Inl e \<Rightarrow> Inl e
      | Inr r \<Rightarrow>
          (case serialize_elems ind vs of
             Inl e \<Rightarrow> Inl e
           | Inr rs \<Rightarrow> Inr ((case r of None \<Rightarrow> ''null'' | Some s \<Rightarrow> s) # rs)))"
| "serialize_props ind [] = Inr []"
| "serialize_props ind ((k, v) # ps) =
     (case serialize ind v of
        Inl e \<Rightarrow> Inl e
      | Inr r \<Rightarrow>
          (case serialize_props ind ps of
             Inl e \<Rightarrow> Inl e
           | Inr rs \<Rightarrow> Inr ((case r of None \<Rightarrow> rs | Some s \<Rightarrow> (quote k @ '': '' @ s) # rs))))"

definition JSON_stringify :: "jsval \<Rightarrow> js_error + jsval" where
  "JSON_stringify v =
     (case serialize [] v of
        Inl e \<Rightarrow> Inl e
      | Inr None \<Rightarrow> Inr JUndefined
      | Inr (Some s) \<Rightarrow> Inr (JStr s))"

section \<open>\<open>formatAgentOutput\<close>\<close>

text \<open>The generic rendering shared by the \<open>default\<close> branch and the \<open>catch\<close> block of
  \<open>formatAgentOutput\<close>:
  \<^verbatim>\<open>typeof result === 'string' ? result : JSON.stringify(result, null, 2)\<close>.\<close>

definition generic_rendering :: "jsval \<Rightarrow> js_error + jsval" where
  "generic_rendering result = (case result of JStr s \<Rightarrow> Inr (JStr s) | _ \<Rightarrow> JSON_stringify result)"

text \<open>\<open>result.k?.join(sep)\<close>: only arrays have a \<open>join\<close> method.\<close>

definition opt_join :: "jsval \<Rightarrow> string \<Rightarrow> string \<Rightarrow> js_error + jsval" where
  "opt_join result k sep =
     bind_e (get_prop result k) (\<lambda>x.
       if nullish x then Inr JUndefined
       else (case x of
               JArr vs \<Rightarrow> Inr (JStr (js_join sep vs))
             | _ \<Rightarrow> Inl (TypeError (''result.'' @ k @ ''?.join is not a function''))))"

text \<open>\<open>result.k?.length || 0\<close>, as it is spliced into a template literal.\<close>

definition count_of :: "jsval \<Rightarrow> string \<Rightarrow> js_error + string" where
  "count_of result k =
     bind_e (get_prop result k) (\<lambda>x. Inr (to_str (js_or (opt_prop x ''length'') (JNum 0))))"

text \<open>\<open>result.slice(0, 3)\<close>: arrays and strings have a \<open>slice\<close> method.\<close>

definition slice_0_3 :: "jsval \<Rightarrow> js_error + jsval" where
  "slice_0_3 result =
     (if nullish result then get_prop result ''slice''
      else (case result of
              JArr vs \<Rightarrow> Inr (JArr (map (subst 0 (JArr vs)) (take 3 vs)))
            | JStr s \<Rightarrow> Inr (JStr (take 3 s))
            | _ \<Rightarrow> Inl (TypeError ''result.slice is not a function'')))"

text \<open>\<open>array.map(f)\<close> for a callback that can throw.\<close>

fun map_e :: "('a \<Rightarrow> js_error + 'b) \<Rightarrow> 'a list \<Rightarrow> js_error + 'b list" where
  "map_e f [] = Inr []"
| "map_e f (x # xs) =
     (case f x of
        Inl e \<Rightarrow> Inl e
      | Inr y \<Rightarrow> (case map_e f xs of Inl e \<Rightarrow> Inl e | Inr ys \<Rightarrow> Inr (y # ys)))"

text \<open>The three characters that precede \<open>${a.query}\<close> in the source, in their Windows-1252
  codes, and the blank after them.\<close>

definition bullet :: string where
  "bullet = [CHR 0xE2, CHR 0x80, CHR 0xA2, CHR 0x20]"

text \<open>\<open>result.slice(0, 3).map(a => `... ${a.query}`).join('\n')\<close>.\<close>

definition recall_lines :: "jsval \<Rightarrow> js_error + string" where
  "recall_lines result =
     bind_e (slice_0_3 result) (\<lambda>sl.
       case sl of
         JArr vs \<Rightarrow>
           bind_e (map_e (\<lambda>a. bind_e (get_prop a ''query'') (\<lambda>q. Inr (bullet @ to_str q))) vs)
             (\<lambda>ls. Inr (join ''\<newline>'' ls))
       | _ \<Rightarrow> Inl (TypeError ''result.slice(...).map is not a function''))"

text \<open>The body of the \<open>try\<close> block of \<open>formatAgentOutput\<close>: the \<open>switch\<close> on the agent type.\<close>

definition format_switch :: "string \<Rightarrow> jsval \<Rightarrow> js_error + jsval" where
  "format_switch agentType result =
     (if agentType = ''story-intelligence'' then
        bind_e (get_prop result ''genre'') (\<lambda>genre.
        bind_e (opt_join result ''themes'' '', '') (\<lambda>themes.
        bind_e (get_prop result ''setting'') (\<lambda>setting.
        bind_e (get_prop result ''mainConflict'') (\<lambda>mainConflict.
          Inr (JStr (''**Genre:** '' @ to_str genre @ ''\<newline>**Themes:** '' @ to_str themes
                     @ ''\<newline>**Setting:** '' @ to_str setting
                     @ ''\<newline>**Main Conflict:** '' @ to_str mainConflict))))))
      else if agentType = ''knowledge-graph'' then
        bind_e (count_of result ''characters'') (\<lambda>c.
        bind_e (count_of result ''locations'') (\<lambda>l.
        bind_e (count_of result ''events'') (\<lambda>e.
        bind_e (count_of result ''relationships'') (\<lambda>r.
        bind_e (count_of result ''plotThreads'') (\<lambda>p.
          Inr (JStr (''**Characters:** '' @ c @ ''\<newline>**Locations:** '' @ l
                     @ ''\<newline>**Events:** '' @ e @ ''\<newline>**Relationships:** '' @ r
                     @ ''\<newline>**Plot Threads:** '' @ p)))))))
      else if agentType = ''temporal-reasoning'' then
        bind_e (count_of result ''chronologicalEvents'') (\<lambda>c.
        bind_e (count_of result ''flashbacks'') (\<lambda>f.
        bind_e (count_of result ''causalChains'') (\<lambda>k.
        bind_e (count_of result ''temporalIssues'') (\<lambda>t.
          Inr (JStr (''**Timeline Events:** '' @ c @ ''\<newline>**Flashbacks:** '' @ f
                     @ ''\<newline>**Causal Chains:** '' @ k @ ''\<newline>**Issues Found:** '' @ t))))))
      else if agentType = ''continuity-validator'' then
        bind_e (get_prop result ''continuityScore'') (\<lambda>score.
        bind_e (count_of result ''contradictions'') (\<lambda>c.
        bind_e (count_of result ''errors'') (\<lambda>e.
        bind_e (count_of result ''recommendations'') (\<lambda>r.
          Inr (JStr (''**Continuity Score:** '' @ to_str score @ ''/100\<newline>**Contradictions:** '' @ c
                     @ ''\<newline>**Errors:** '' @ e @ ''\<newline>**Recommendations:** '' @ r))))))
      else if agentType = ''creative-coauthor'' then
        bind_e (count_of result ''sceneSuggestions'') (\<lambda>s.
        bind_e (count_of result ''plotDevelopments'') (\<lambda>p.
        bind_e (count_of result ''dialogueImprovements'') (\<lambda>d.
        bind_e (count_of result ''characterArcGuidance'') (\<lambda>c.
          Inr (JStr (''**Scene Suggestions:** '' @ s @ ''\<newline>**Plot Developments:** '' @ p
                     @ ''\<newline>**Dialogue Ideas:** '' @ d @ ''\<newline>**Character Arcs:** '' @ c))))))
      else if agentType = ''intelligent-recall'' then
        bind_e (get_prop result ''length'') (\<lambda>len.
        bind_e (recall_lines result) (\<lambda>ls.
          Inr (JStr (''**Insights Generated:** '' @ to_str (js_or len (JNum 0)) @ ''\<newline>'' @ ls))))
      else if agentType = ''cinematic-teaser'' then
        bind_e (get_prop result ''tagline'') (\<lambda>tagline.
        bind_e (count_of result ''visualPrompts'') (\<lambda>v.
        bind_e (opt_join result ''hooks'' '' | '') (\<lambda>hooks.
          Inr (JStr (''**Tagline:** '' @ to_str tagline @ ''\<newline>**Visual Scenes:** '' @ v
                     @ ''\<newline>**Hooks:** '' @ to_str hooks)))))
      else generic_rendering result)"

text \<open>\<open>formatAgentOutput\<close>: whatever the \<open>try\<close> block throws is caught, and the \<open>catch\<close>
  block evaluates the generic rendering, which is not itself guarded.\<close>

definition formatAgentOutput :: "string \<Rightarrow> jsval \<Rightarrow> js_error + jsval" where
  "formatAgentOutput agentType result =
     (case format_switch agentType result of
        Inl e \<Rightarrow> generic_rendering result
      | Inr s \<Rightarrow> Inr s)"


section \<open>The workflow document\<close>

text \<open>The document \<open>ScriptWorkflow\<close> with the fields that the route reads and writes. A node is
  \<open>{id, data}\<close>; its id is \<open>node_id\<close> here, and \<open>node.data.output\<close> and \<open>node.data.input\<close> are
  \<open>node_output\<close> and \<open>node_input\<close>. The status of the workflow is \<open>wf_status\<close>. A field that is
  not set is \<open>JUndefined\<close> or \<open>None\<close>. \<open>lastRun\<close> is a point in time, taken as a number. The
  records \<open>node_error\<close> and \<open>result_entry\<close> are the objects pushed to \<open>progress.errors\<close> and to
  \<open>results\<close>; \<open>summary\<close> is the object that \<open>generateExecutionSummary\<close> returns.\<close>

record input_snapshot =
  storyBrief :: string
  hasManuscript :: bool
  previousAgents :: "string list"

record node_data =
  agentType :: string
  label :: jsval
  status :: string
  result :: jsval
  node_output :: jsval
  node_input :: "input_snapshot option"
  error :: "string option"

record node =
  node_id :: string
  data :: node_data

record node_error =
  err_nodeId :: string
  err_error :: string

record progress_rec =
  currentNode :: "string option"
  completedNodes :: "string list"
  totalNodes :: nat
  errors :: "node_error list"

record workflow =
  brief :: jsval
  inputs :: jsval
  nodes :: "node list"
  wf_status :: string
  lastRun :: "nat option"
  progress :: progress_rec
  analysisContext :: jsval

record result_entry =
  res_nodeId :: string
  res_agentType :: string
  res_agentName :: jsval
  res_result :: jsval

record summary =
  agentsExecuted :: nat
  successfulAgents :: nat
  storyAnalyzed :: bool
  knowledgeGraphBuilt :: bool
  timelineAnalyzed :: bool
  continuityChecked :: bool
  suggestionsGenerated :: bool
  teaserCreated :: bool
  highlights :: "string list"

text \<open>The bodies passed to \<open>NextResponse.json\<close>: \<open>{error}\<close> with a status code;
  \<open>{success: true, result, nodeData, message}\<close>; \<open>{success: false, error}\<close> with status 500;
  \<open>{success, workflow, results, summary}\<close>.\<close>

datatype response =
    ErrorResponse string nat
  | SingleSuccess jsval node_data string
  | SingleFailure string
  | FullResponse bool workflow "result_entry list" summary

text \<open>What an invocation of \<open>executeAgent\<close> gives: the error it throws, or
  \<open>{result, updatedContext}\<close>.\<close>

type_synonym agent_outcome = "js_error + (jsval \<times> jsval)"

section \<open>Objects the route builds and reads\<close>

text \<open>The value stored under an own property of an object, if there is one; the assignment
  \<open>obj[k] = v\<close> to an object, which keeps the place of a key that is already there and appends
  a new one; the own properties that \<open>{...v}\<close> and \<open>Object.keys(v)\<close> enumerate (for keys that are
  not array indices, which JavaScript enumerates in the order of insertion).\<close>

definition own_prop :: "jsval \<Rightarrow> string \<Rightarrow> jsval option" where
  "own_prop obj k = (case obj of JObj ps \<Rightarrow> map_of ps k | _ \<Rightarrow> None)"

text \<open>The route assigns to object literals of its own only; on anything else \<open>set_prop\<close>
  changes nothing.\<close>

definition set_prop :: "jsval \<Rightarrow> string \<Rightarrow> jsval \<Rightarrow> jsval" where
  "set_prop obj k v = (case obj of JObj ps \<Rightarrow> JObj (AList.update k v ps) | _ \<Rightarrow> obj)"

definition own_props :: "jsval \<Rightarrow> (string \<times> jsval) list" where
  "own_props v =
     (case v of
        JObj ps \<Rightarrow> map (\<lambda>(k, x). (k, subst 0 (JObj ps) x)) ps
      | JArr vs \<Rightarrow> zip (map show_nat [0..<length vs]) (map (subst 0 (JArr vs)) vs)
      | JStr s \<Rightarrow> zip (map show_nat [0..<length s]) (map (\<lambda>c. JStr [c]) s)
      | _ \<Rightarrow> [])"

definition spread :: "(string \<times> jsval) list \<Rightarrow> jsval \<Rightarrow> (string \<times> jsval) list" where
  "spread acc v = foldl (\<lambda>al (k, x). AList.update k x al) acc (own_props v)"

definition Object_keys :: "jsval \<Rightarrow> js_error + string list" where
  "Object_keys v =
     (if nullish v then Inl (TypeError ''Cannot convert undefined or null to object'')
      else Inr (map fst (own_props v)))"

text \<open>\<open>agentContext.storyBrief?.substring(0, 500)\<close>: only strings have a \<open>substring\<close>
  method.\<close>

definition opt_substring_500 :: "jsval \<Rightarrow> js_error + jsval" where
  "opt_substring_500 sb =
     (if nullish sb then Inr JUndefined
      else (case sb of
              JStr s \<Rightarrow> Inr (JStr (take 500 s))
            | _ \<Rightarrow> Inl (TypeError ''agentContext.storyBrief?.substring is not a function'')))"

text \<open>The object stored in \<open>node.data.input\<close> (lines 65--69 and 176--180).\<close>

definition input_of_context :: "jsval \<Rightarrow> js_error + input_snapshot" where
  "input_of_context agentContext =
     bind_e (get_prop agentContext ''storyBrief'') (\<lambda>sb.
     bind_e (opt_substring_500 sb) (\<lambda>sub.
     bind_e (get_prop agentContext ''manuscript'') (\<lambda>m.
     bind_e (get_prop agentContext ''previousResults'') (\<lambda>pr.
     bind_e (Object_keys pr) (\<lambda>ks.
       Inr \<lparr>storyBrief = to_str sub @ ''...'', hasManuscript = truthy m, previousAgents = ks\<rparr>)))))"

text \<open>The context both modes start from (lines 23--27 and 160--164).\<close>

definition base_context :: "workflow \<Rightarrow> jsval" where
  "base_context w =
     JObj [(''storyBrief'', js_or (brief w) (JStr [])),
           (''manuscript'',
              js_or (js_or (opt_prop (inputs w) ''manuscript'') (opt_prop (inputs w) ''fullText''))
                    (JStr [])),
           (''previousResults'', JObj [])]"

section \<open>\<open>generateExecutionSummary\<close>\<close>

definition no_error_field :: "result_entry \<Rightarrow> bool" where
  "no_error_field r = (\<not> truthy (opt_prop (res_result r) ''error''))"

definition generateExecutionSummary :: "result_entry list \<Rightarrow> jsval \<Rightarrow> js_error + summary" where
  "generateExecutionSummary results context =
     bind_e (get_prop context ''storyContext'') (\<lambda>sc.
     bind_e (get_prop context ''knowledgeGraph'') (\<lambda>kg.
     bind_e (get_prop context ''timeline'') (\<lambda>tl.
     bind_e (get_prop context ''continuityReport'') (\<lambda>cr.
     bind_e (get_prop context ''suggestions'') (\<lambda>sg.
     bind_e (get_prop context ''teaserContent'') (\<lambda>tc.
     bind_e (if truthy sc
             then bind_e (get_prop sc ''genre'') (\<lambda>g. Inr [''Genre identified: '' @ to_str g])
             else Inr []) (\<lambda>h1.
     bind_e (if truthy kg
             then bind_e (count_of kg ''characters'')
                    (\<lambda>c. Inr [c @ '' characters mapped''])
             else Inr []) (\<lambda>h2.
     bind_e (if truthy cr
             then bind_e (get_prop cr ''continuityScore'')
                    (\<lambda>s. Inr [''Continuity score: '' @ to_str s @ ''/100''])
             else Inr []) (\<lambda>h3.
     bind_e (if truthy tc
             then bind_e (get_prop tc ''tagline'')
                    (\<lambda>t. Inr [''Trailer tagline: '' @ [CHR 0x22] @ to_str t @ [CHR 0x22]])
             else Inr []) (\<lambda>h4.
       Inr \<lparr>agentsExecuted = length results,
            successfulAgents = length (filter no_error_field results),
            storyAnalyzed = truthy sc,
            knowledgeGraphBuilt = truthy kg,
            timelineAnalyzed = truthy tl,
            continuityChecked = truthy cr,
            suggestionsGenerated = truthy sg,
            teaserCreated = truthy tc,
            highlights = h1 @ h2 @ h3 @ h4\<rparr>))))))))))"


section \<open>\<open>executeSingleAgent\<close>\<close>

text \<open>\<open>agentContext.previousResults[agentType] = result\<close> (line 32): a write into the object
  that \<open>agentContext\<close> holds under \<open>previousResults\<close>. The object literal of lines 23--27
  always has that property, so the second branch is not taken by \<open>executeSingleAgent\<close>.\<close>

definition record_result :: "string \<Rightarrow> jsval \<Rightarrow> jsval \<Rightarrow> jsval" where
  "record_result k r agentContext =
     (case own_prop agentContext ''previousResults'' of
        Some p \<Rightarrow> set_prop agentContext ''previousResults'' (set_prop p k r)
      | None \<Rightarrow> agentContext)"

text \<open>The body of the loop of lines 30--49, for one node \<open>n\<close> that passed the test of
  line 31: the result is recorded under \<open>previousResults\<close> and restored to its slot.\<close>

definition restore_result :: "node \<Rightarrow> jsval \<Rightarrow> jsval" where
  "restore_result n agentContext =
     (let r = result (data n);
          c1 = record_result (agentType (data n)) r agentContext
      in if agentType (data n) = ''story-intelligence'' then set_prop c1 ''storyContext'' r
         else if agentType (data n) = ''knowledge-graph'' then set_prop c1 ''knowledgeGraph'' r
         else if agentType (data n) = ''temporal-reasoning'' then set_prop c1 ''timeline'' r
         else if agentType (data n) = ''continuity-validator'' then set_prop c1 ''continuityReport'' r
         else if agentType (data n) = ''creative-coauthor'' then set_prop c1 ''suggestions'' r
         else if agentType (data n) = ''intelligent-recall'' then set_prop c1 ''memoryBank'' r
         else c1)"

text \<open>The loop of lines 30--49 over \<open>workflow.nodes\<close>, with the test of line 31:
  \<open>n.id !== nodeId && n.data.result\<close>.\<close>

fun collect_results :: "string \<Rightarrow> node list \<Rightarrow> jsval \<Rightarrow> jsval" where
  "collect_results nodeId [] agentContext = agentContext"
| "collect_results nodeId (n # ns) agentContext =
     collect_results nodeId ns
       (if node_id n \<noteq> nodeId \<and> truthy (result (data n))
        then restore_result n agentContext else agentContext)"

text \<open>A write through the reference that \<open>workflow.nodes.find(n => n.id === nodeId)\<close> returns:
  the first node with that id is changed.\<close>

fun update_node :: "string \<Rightarrow> (node_data \<Rightarrow> node_data) \<Rightarrow> node list \<Rightarrow> node list" where
  "update_node nodeId f [] = []"
| "update_node nodeId f (n # ns) =
     (if node_id n = nodeId then n\<lparr>data := f (data n)\<rparr> # ns else n # update_node nodeId f ns)"

text \<open>The \<open>catch\<close> block of \<open>executeSingleAgent\<close> (lines 85--100).\<close>

definition single_catch :: "js_error \<Rightarrow> string \<Rightarrow> workflow \<Rightarrow> response \<times> workflow" where
  "single_catch e nodeId w =
     (SingleFailure (message e),
      w\<lparr>nodes := update_node nodeId
                     (\<lambda>d. d\<lparr>status := ''error'', error := Some (message e)\<rparr>) (nodes w)\<rparr>)"

text \<open>Line 56: \<open>agentType || node.data.agentType\<close>.\<close>

definition effectiveAgentType :: "string option \<Rightarrow> node \<Rightarrow> string" where
  "effectiveAgentType requested nd =
     (case requested of
        None \<Rightarrow> agentType (data nd)
      | Some a \<Rightarrow> if a \<noteq> [] then a else agentType (data nd))"

text \<open>\<open>executeSingleAgent\<close> (lines 12--101). \<open>executeAgent\<close> is the one invocation it makes.
  Each write to the node before a throw stays: the \<open>catch\<close> block runs on the document as
  the \<open>try\<close> block left it.\<close>

definition executeSingleAgent ::
  "(string \<Rightarrow> jsval \<Rightarrow> agent_outcome) \<Rightarrow> workflow \<Rightarrow> string \<Rightarrow> string option
     \<Rightarrow> response \<times> workflow" where
  "executeSingleAgent executeAgent w nodeId requested =
     (case find (\<lambda>n. node_id n = nodeId) (nodes w) of
        None \<Rightarrow> (ErrorResponse ''Node not found in workflow'' 404, w)
      | Some nd \<Rightarrow>
          (let agentContext = collect_results nodeId (nodes w) (base_context w);
               w1 = w\<lparr>nodes := update_node nodeId (\<lambda>d. d\<lparr>status := ''running''\<rparr>) (nodes w)\<rparr>
           in case executeAgent (effectiveAgentType requested nd) agentContext of
                Inl e \<Rightarrow> single_catch e nodeId w1
              | Inr (res, updatedContext) \<Rightarrow>
                  (let w2 = w1\<lparr>nodes := update_node nodeId
                                  (\<lambda>d. d\<lparr>status := ''success'', result := res\<rparr>) (nodes w1)\<rparr>
                   in case formatAgentOutput (effectiveAgentType requested nd) res of
                        Inl e \<Rightarrow> single_catch e nodeId w2
                      | Inr out \<Rightarrow>
                          (let w3 = w2\<lparr>nodes := update_node nodeId
                                          (\<lambda>d. d\<lparr>node_output := out\<rparr>) (nodes w2)\<rparr>
                           in case input_of_context agentContext of
                                Inl e \<Rightarrow> single_catch e nodeId w3
                              | Inr inp \<Rightarrow>
                                  (let w4 = w3\<lparr>nodes := update_node nodeId
                                                  (\<lambda>d. d\<lparr>node_input := Some inp\<rparr>) (nodes w3),
                                               analysisContext :=
                                                 JObj (spread (spread [] (analysisContext w3))
                                                         updatedContext)\<rparr>
                                   in (SingleSuccess res
                                         ((data nd)\<lparr>status := ''success'', result := res,
                                              node_output := out, node_input := Some inp\<rparr>)
                                         (effectiveAgentType requested nd
                                            @ '' executed successfully''),
                                       w4))))))"

section \<open>The full run of \<open>POST\<close>\<close>

text \<open>What the loop of lines 166--216 carries from one node to the next: the shared context,
  \<open>workflow.progress\<close> and the \<open>results\<close> array.\<close>

record loop_state =
  ctx :: jsval
  prog :: progress_rec
  results :: "result_entry list"

text \<open>The \<open>catch\<close> block of the loop (lines 204--215).\<close>

definition node_catch :: "js_error \<Rightarrow> node \<Rightarrow> loop_state \<Rightarrow> node \<times> loop_state" where
  "node_catch e n st =
     (n\<lparr>data := (data n)\<lparr>status := ''error'', error := Some (message e)\<rparr>\<rparr>,
      st\<lparr>prog := (prog st)\<lparr>errors := errors (prog st)
                      @ [\<lparr>err_nodeId = node_id n, err_error = message e\<rparr>]\<rparr>\<rparr>)"

text \<open>One iteration of the loop. \<open>executeAgent\<close> is the invocation made for this node;
  \<open>AGENT_DEFINITIONS\<close> is the imported table, read as \<open>AGENT_DEFINITIONS[agentType]\<close>.\<close>

definition run_node ::
  "(string \<Rightarrow> jsval \<Rightarrow> agent_outcome) \<Rightarrow> (string \<Rightarrow> jsval) \<Rightarrow> node \<Rightarrow> loop_state
     \<Rightarrow> node \<times> loop_state" where
  "run_node executeAgent AGENT_DEFINITIONS n st =
     (let st1 = st\<lparr>prog := (prog st)\<lparr>currentNode := Some (node_id n)\<rparr>\<rparr>;
          n1 = n\<lparr>data := (data n)\<lparr>status := ''running''\<rparr>\<rparr>;
          agentDef = AGENT_DEFINITIONS (agentType (data n))
      in case input_of_context (ctx st1) of
           Inl e \<Rightarrow> node_catch e n1 st1
         | Inr inp \<Rightarrow>
             (let n2 = n1\<lparr>data := (data n1)\<lparr>node_input := Some inp\<rparr>\<rparr>
              in case executeAgent (agentType (data n)) (ctx st1) of
                   Inl e \<Rightarrow> node_catch e n2 st1
                 | Inr (res, updatedContext) \<Rightarrow>
                     (let st2 = st1\<lparr>ctx := updatedContext,
                                    results := results st1
                                      @ [\<lparr>res_nodeId = node_id n,
                                          res_agentType = agentType (data n),
                                          res_agentName = js_or (opt_prop agentDef ''name'')
                                                                (label (data n)),
                                          res_result = res\<rparr>]\<rparr>;
                          n3 = n2\<lparr>data := (data n2)\<lparr>status := ''success'', result := res\<rparr>\<rparr>
                      in case formatAgentOutput (agentType (data n)) res of
                           Inl e \<Rightarrow> node_catch e n3 st2
                         | Inr out \<Rightarrow>
                             (n3\<lparr>data := (data n3)\<lparr>node_output := out\<rparr>\<rparr>,
                              st2\<lparr>prog := (prog st2)\<lparr>completedNodes :=
                                       completedNodes (prog st2) @ [node_id n]\<rparr>\<rparr>))))"

text \<open>The loop over \<open>workflow.nodes\<close>; \<open>executeAgent i\<close> is the invocation made for the node
  at position \<open>i\<close>.\<close>

fun run_nodes ::
  "(nat \<Rightarrow> string \<Rightarrow> jsval \<Rightarrow> agent_outcome) \<Rightarrow> (string \<Rightarrow> jsval) \<Rightarrow> nat \<Rightarrow> node list
     \<Rightarrow> loop_state \<Rightarrow> node list \<times> loop_state" where
  "run_nodes executeAgent AGENT_DEFINITIONS i [] st = ([], st)"
| "run_nodes executeAgent AGENT_DEFINITIONS i (n # ns) st =
     (case run_node (executeAgent i) AGENT_DEFINITIONS n st of
        (n', st') \<Rightarrow>
          (case run_nodes executeAgent AGENT_DEFINITIONS (Suc i) ns st' of
             (ns', st'') \<Rightarrow> (n' # ns', st'')))"

text \<open>Lines 145--152: the run is marked as started and \<open>progress\<close> is reset. \<open>now\<close> is the
  value of \<open>new Date()\<close>.\<close>

definition start_run :: "nat \<Rightarrow> workflow \<Rightarrow> workflow" where
  "start_run now w =
     w\<lparr>wf_status := ''running'', lastRun := Some now,
       progress := \<lparr>currentNode = (case nodes w of [] \<Rightarrow> None | n # _ \<Rightarrow> Some (node_id n)),
                    completedNodes = [], totalNodes = length (nodes w), errors = []\<rparr>\<rparr>"

text \<open>Lines 156--164: the state in which the loop is entered.\<close>

definition initial_state :: "workflow \<Rightarrow> loop_state" where
  "initial_state w = \<lparr>ctx = base_context w, prog = progress w, results = []\<rparr>"

text \<open>Lines 143--234 of \<open>POST\<close>: the full run.\<close>

definition POST_full ::
  "(nat \<Rightarrow> string \<Rightarrow> jsval \<Rightarrow> agent_outcome) \<Rightarrow> (string \<Rightarrow> jsval) \<Rightarrow> nat \<Rightarrow> workflow
     \<Rightarrow> response \<times> workflow" where
  "POST_full executeAgent AGENT_DEFINITIONS now w =
     (let w1 = start_run now w
      in case run_nodes executeAgent AGENT_DEFINITIONS 0 (nodes w1) (initial_state w1) of
           (ns, st) \<Rightarrow>
             (let hasErrors = (errors (prog st) \<noteq> []);
                  allFailed = (completedNodes (prog st) = []);
                  w2 = w1\<lparr>nodes := ns,
                          wf_status := (if allFailed then ''error''
                                        else if hasErrors then ''partial'' else ''completed''),
                          progress := (prog st)\<lparr>currentNode := None\<rparr>,
                          analysisContext := ctx st\<rparr>
              in case generateExecutionSummary (results st) (ctx st) of
                   Inl e \<Rightarrow> (ErrorResponse ''Failed to execute workflow'' 500, w2)
                 | Inr sm \<Rightarrow> (FullResponse (\<not> allFailed) w2 (results st) sm, w2)))"

record request_body =
  workflowId :: "string option"
  singleAgentId :: "string option"
  requestedAgentType :: "string option"

text \<open>\<open>POST\<close>. \<open>session\<close> is the id of the signed-in user, if any; \<open>findOne\<close> is the lookup
  \<open>ScriptWorkflow.findOne({_id, userId})\<close>. The second component is the workflow document
  as the handler leaves it, when one was loaded.\<close>

definition POST ::
  "string option \<Rightarrow> request_body \<Rightarrow> (string \<Rightarrow> string \<Rightarrow> workflow option)
     \<Rightarrow> (nat \<Rightarrow> string \<Rightarrow> jsval \<Rightarrow> agent_outcome) \<Rightarrow> (string \<Rightarrow> jsval) \<Rightarrow> nat
     \<Rightarrow> response \<times> workflow option" where
  "POST session body findOne executeAgent AGENT_DEFINITIONS now =
     (case session of
        None \<Rightarrow> (ErrorResponse ''Unauthorized'' 401, None)
      | Some userId \<Rightarrow>
          (case workflowId body of
             None \<Rightarrow> (ErrorResponse ''Workflow ID is required'' 400, None)
           | Some wid \<Rightarrow>
               if wid = [] then (ErrorResponse ''Workflow ID is required'' 400, None)
               else (case findOne wid userId of
                       None \<Rightarrow> (ErrorResponse ''Workflow not found'' 404, None)
                     | Some w \<Rightarrow>
                         (case singleAgentId body of
                            None \<Rightarrow> map_prod (\<lambda>r. r) Some (POST_full executeAgent AGENT_DEFINITIONS now w)
                          | Some sid \<Rightarrow>
                              if sid = []
                              then map_prod (\<lambda>r. r) Some
                                     (POST_full executeAgent AGENT_DEFINITIONS now w)
                              else map_prod (\<lambda>r. r) Some
                                     (executeSingleAgent (executeAgent 0) w sid
                                        (requestedAgentType body))))))"

section \<open>Notions used to state the properties\<close>

text \<open>The entry of \<open>context.previousResults\<close> under the key \<open>k\<close>, if there is one.\<close>

definition previous_result :: "jsval \<Rightarrow> string \<Rightarrow> jsval option" where
  "previous_result context k =
     (case own_prop context ''previousResults'' of Some p \<Rightarrow> own_prop p k | None \<Rightarrow> None)"

text \<open>A context as both modes build it: an object that holds an object under
  \<open>previousResults\<close>.\<close>

definition is_context :: "jsval \<Rightarrow> bool" where
  "is_context c =
     (case own_prop c ''previousResults'' of Some (JObj qs) \<Rightarrow> True | _ \<Rightarrow> False)"

text \<open>The table of agent kinds and slots that the chain of comparisons of lines 35--47
  amounts to.\<close>

definition slot_of :: "string \<Rightarrow> string option" where
  "slot_of kind =
     map_of [(''story-intelligence'', ''storyContext''),
             (''knowledge-graph'', ''knowledgeGraph''),
             (''temporal-reasoning'', ''timeline''),
             (''continuity-validator'', ''continuityReport''),
             (''creative-coauthor'', ''suggestions''),
             (''intelligent-recall'', ''memoryBank'')] kind"




text \<open>The state in which the loop of a full run enters the node at position \<open>i\<close>: the state
  left by the nodes before it.\<close>

definition state_before ::
  "(nat \<Rightarrow> string \<Rightarrow> jsval \<Rightarrow> agent_outcome) \<Rightarrow> (string \<Rightarrow> jsval) \<Rightarrow> nat \<Rightarrow> workflow \<Rightarrow> nat
     \<Rightarrow> loop_state" where
  "state_before executeAgent AGENT_DEFINITIONS now w i =
     snd (run_nodes executeAgent AGENT_DEFINITIONS 0 (take i (nodes (start_run now w)))
            (initial_state (start_run now w)))"


text \<open>A value is acyclic when no object or array in it holds a reference to an object or
  array that encloses it.\<close>

fun acyclic :: "jsval \<Rightarrow> bool" where
  "acyclic (JBack n) = False"
| "acyclic (JArr vs) = list_all acyclic vs"
| "acyclic (JObj ps) = list_all (\<lambda>p. acyclic (snd p)) ps"
| "acyclic v = True"

section \<open>Concrete workflows and agents\<close>

text \<open>Modelled from the spec: the agent executor (\<open>@/lib/agents/agent-executor\<close>) is not among
  the sources. A successful invocation returns its result and the context with the result
  merged in by the Context Accumulator of the specification: under \<open>previousResults\<close> and,
  for a recognised kind, in the slot of that kind.\<close>

definition project :: "string \<Rightarrow> jsval \<Rightarrow> jsval \<Rightarrow> jsval" where
  "project kind r context =
     (let c1 = record_result kind r context
      in case map_of [(''story-intelligence'', ''storyContext''),
                      (''knowledge-graph'', ''knowledgeGraph''),
                      (''temporal-reasoning'', ''timeline''),
                      (''continuity-validator'', ''continuityReport''),
                      (''creative-coauthor'', ''suggestions''),
                      (''intelligent-recall'', ''memoryBank''),
                      (''cinematic-teaser'', ''teaserContent'')] kind of
           Some slot \<Rightarrow> set_prop c1 slot r
         | None \<Rightarrow> c1)"

text \<open>An agent that plays a script: the invocation for the node at position \<open>i\<close> fails with
  the message, or returns the result, that the script gives at \<open>i\<close>.\<close>

definition scripted_agent ::
  "(string + jsval) list \<Rightarrow> nat \<Rightarrow> string \<Rightarrow> jsval \<Rightarrow> agent_outcome" where
  "scripted_agent script i kind context =
     (if i < length script
      then (case script ! i of
              Inl m \<Rightarrow> Inl (AgentError m)
            | Inr r \<Rightarrow> Inr (r, project kind r context))
      else Inl (AgentError ''no outcome scripted''))"

definition no_definitions :: "string \<Rightarrow> jsval" where
  "no_definitions kind = JUndefined"

definition pending_node :: "string \<Rightarrow> string \<Rightarrow> node" where
  "pending_node i kind =
     \<lparr>node_id = i,
      data = \<lparr>agentType = kind, label = JStr kind, status = ''pending'', result = JUndefined,
              node_output = JUndefined, node_input = None, error = None\<rparr>\<rparr>"

definition done_node :: "string \<Rightarrow> string \<Rightarrow> jsval \<Rightarrow> node" where
  "done_node i kind r =
     \<lparr>node_id = i,
      data = \<lparr>agentType = kind, label = JStr kind, status = ''success'', result = r,
              node_output = JStr ''rendered'', node_input = None, error = None\<rparr>\<rparr>"

definition draft :: "node list \<Rightarrow> workflow" where
  "draft ns =
     \<lparr>brief = JStr ''A detective returns to her home town'', inputs = JUndefined, nodes = ns,
      wf_status = ''idle'', lastRun = None,
      progress = \<lparr>currentNode = None, completedNodes = [], totalNodes = 0, errors = []\<rparr>,
      analysisContext = JUndefined\<rparr>"

text \<open>The example of the specification: three nodes, the second one fails.\<close>

definition noir :: jsval where
  "noir = JObj [(''genre'', JStr ''noir'')]"

definition score82 :: jsval where
  "score82 = JObj [(''continuityScore'', JNum 82)]"

definition abc_nodes :: "node list" where
  "abc_nodes = [pending_node ''A'' ''story-intelligence'', pending_node ''B'' ''knowledge-graph'',
                pending_node ''C'' ''continuity-validator'']"

definition abc_script :: "(string + jsval) list" where
  "abc_script = [Inr noir, Inl ''timeout'', Inr score82]"

text \<open>Two nodes of the same kind, of which the second fails.\<close>

definition twice_nodes :: "node list" where
  "twice_nodes = [pending_node ''A'' ''story-intelligence'', pending_node ''B'' ''story-intelligence'',
                  pending_node ''C'' ''continuity-validator'']"

text \<open>A workflow that has already run: both nodes carry a result.\<close>

definition rerun_nodes :: "node list" where
  "rerun_nodes = [done_node ''A'' ''story-intelligence'' noir,
                  done_node ''B'' ''continuity-validator'' score82]"






text \<open>An object that holds itself under the key \<open>self\<close>.\<close>

definition self_referential :: jsval where
  "self_referential = JObj [(''self'', JBack 0)]"


section \<open>Properties of the run\<close>

subsection \<open>The loop, node by node\<close>

lemma run_node_count:
  "run_node ex defs n st = (n', st') \<Longrightarrow>
   length (completedNodes (prog st')) + length (errors (prog st'))
     = Suc (length (completedNodes (prog st)) + length (errors (prog st)))"
  by (auto simp: run_node_def Let_def node_catch_def split: sum.splits prod.splits)

lemma run_nodes_count:
  "run_nodes ex defs i ns st = (ns', st') \<Longrightarrow>
   length (completedNodes (prog st')) + length (errors (prog st'))
     = length ns + (length (completedNodes (prog st)) + length (errors (prog st)))"
proof (induction ns arbitrary: i st ns' st')
  case Nil
  then show ?case by simp
next
  case (Cons n ns)
  obtain n1 st1 where a: "run_node (ex i) defs n st = (n1, st1)" by force
  obtain ns2 st2 where b: "run_nodes ex defs (Suc i) ns st1 = (ns2, st2)" by force
  from Cons.prems a b have "st' = st2" by simp
  with Cons.IH[OF b] run_node_count[OF a] show ?case by simp
qed

lemma POST_full_workflow:
  assumes "run_nodes ex defs 0 (nodes (start_run now w)) (initial_state (start_run now w)) = (ns, st)"
  shows "snd (POST_full ex defs now w) =
     (start_run now w)\<lparr>nodes := ns,
        wf_status := (if completedNodes (prog st) = [] then ''error''
                      else if errors (prog st) \<noteq> [] then ''partial'' else ''completed''),
        progress := (prog st)\<lparr>currentNode := None\<rparr>,
        analysisContext := ctx st\<rparr>"
  using assms by (simp add: POST_full_def Let_def split: sum.splits)

lemma run_nodes_append:
  "run_nodes ex defs i (xs @ ys) st =
     (case run_nodes ex defs i xs st of
        (xs', st') \<Rightarrow>
          (case run_nodes ex defs (i + length xs) ys st' of
             (ys', st'') \<Rightarrow> (xs' @ ys', st'')))"
  by (induction xs arbitrary: i st) (auto split: prod.splits)

lemma run_nodes_length:
  "run_nodes ex defs i ns st = (ns', st') \<Longrightarrow> length ns' = length ns"
  by (induction ns arbitrary: i st ns' st') (auto split: prod.splits)

lemma run_nodes_take_Suc:
  assumes "i < length ns"
  shows "run_nodes ex defs 0 (take (Suc i) ns) st0 =
     (case run_nodes ex defs 0 (take i ns) st0 of
        (ms, st) \<Rightarrow>
          (case run_node (ex i) defs (ns ! i) st of (n', st') \<Rightarrow> (ms @ [n'], st')))"
proof -
  have "take (Suc i) ns = take i ns @ [ns ! i]"
    using assms by (simp add: take_Suc_conv_app_nth)
  then show ?thesis
    using assms by (simp add: run_nodes_append min_def split: prod.splits)
qed

lemma state_before_Suc:
  assumes "i < length (nodes w)"
  shows "state_before ex defs now w (Suc i) =
           snd (run_node (ex i) defs (nodes w ! i) (state_before ex defs now w i))"
proof -
  have n: "nodes (start_run now w) = nodes w" by (simp add: start_run_def)
  show ?thesis
    unfolding state_before_def n using run_nodes_take_Suc[OF assms, of ex defs]
    by (simp split: prod.splits)
qed

lemma run_node_failed_ctx:
  "ex (agentType (data n)) (ctx st) = Inl e \<Longrightarrow>
   ctx (snd (run_node ex defs n st)) = ctx st \<and> results (snd (run_node ex defs n st)) = results st"
  by (simp add: run_node_def Let_def node_catch_def split: sum.splits)

lemma nth_run_nodes:
  assumes "i < length ns"
  shows "fst (run_nodes ex defs 0 ns st0) ! i
           = fst (run_node (ex i) defs (ns ! i) (snd (run_nodes ex defs 0 (take i ns) st0)))"
proof -
  have "ns = take i ns @ (ns ! i) # drop (Suc i) ns"
    using assms by (simp add: id_take_nth_drop)
  then have "run_nodes ex defs 0 ns st0 = run_nodes ex defs 0 (take i ns @ (ns ! i) # drop (Suc i) ns) st0"
    by simp
  also have "\<dots> = (case run_nodes ex defs 0 (take i ns) st0 of
        (xs', st') \<Rightarrow>
          (case run_nodes ex defs i ((ns ! i) # drop (Suc i) ns) st' of
             (ys', st'') \<Rightarrow> (xs' @ ys', st'')))"
    using assms by (simp only: run_nodes_append) (simp add: min_def)
  finally have e: "run_nodes ex defs 0 ns st0 = (case run_nodes ex defs 0 (take i ns) st0 of
        (xs', st') \<Rightarrow>
          (case run_nodes ex defs i ((ns ! i) # drop (Suc i) ns) st' of
             (ys', st'') \<Rightarrow> (xs' @ ys', st'')))" .
  obtain xs' st' where a: "run_nodes ex defs 0 (take i ns) st0 = (xs', st')" by force
  have l: "length xs' = i" using run_nodes_length[OF a] assms by simp
  show ?thesis unfolding e a using l
    by (simp add: nth_append split: prod.splits)
qed

lemma run_node_failed_node:
  "input_of_context (ctx st) = Inr inp \<Longrightarrow> ex (agentType (data n)) (ctx st) = Inl e \<Longrightarrow>
   fst (run_node ex defs n st)
     = n\<lparr>data := (data n)\<lparr>status := ''error'', node_input := Some inp, error := Some (message e)\<rparr>\<rparr>"
  by (simp add: run_node_def Let_def node_catch_def)

lemma run_node_failed_errors:
  "input_of_context (ctx st) = Inr inp \<Longrightarrow> ex (agentType (data n)) (ctx st) = Inl e \<Longrightarrow>
   errors (prog (snd (run_node ex defs n st)))
     = errors (prog st) @ [\<lparr>err_nodeId = node_id n, err_error = message e\<rparr>]"
  by (simp add: run_node_def Let_def node_catch_def)

lemma run_node_errors_grow:
  "set (errors (prog st)) \<subseteq> set (errors (prog (snd (run_node ex defs n st))))"
  by (auto simp: run_node_def Let_def node_catch_def split: sum.splits prod.splits)

lemma snd_run_nodes_Cons:
  "snd (run_nodes ex defs i (n # ns) st)
     = snd (run_nodes ex defs (Suc i) ns (snd (run_node (ex i) defs n st)))"
  by (simp split: prod.splits)

lemma run_nodes_errors_grow:
  "set (errors (prog st)) \<subseteq> set (errors (prog (snd (run_nodes ex defs i ns st))))"
proof (induction ns arbitrary: i st)
  case Nil
  then show ?case by simp
next
  case (Cons n ns)
  have "set (errors (prog st)) \<subseteq> set (errors (prog (snd (run_node (ex i) defs n st))))"
    by (rule run_node_errors_grow)
  also have "\<dots> \<subseteq> set (errors (prog (snd (run_nodes ex defs (Suc i) ns (snd (run_node (ex i) defs n st))))))"
    by (rule Cons.IH)
  finally show ?case by (simp only: snd_run_nodes_Cons)
qed

lemma POST_full_nodes:
  "nodes (snd (POST_full ex defs now w))
     = fst (run_nodes ex defs 0 (nodes w) (initial_state (start_run now w)))"
proof -
  obtain ns st where
    r: "run_nodes ex defs 0 (nodes (start_run now w)) (initial_state (start_run now w)) = (ns, st)"
    by force
  have n: "nodes (start_run now w) = nodes w" by (simp add: start_run_def)
  show ?thesis unfolding POST_full_workflow[OF r] using r by (simp add: n)
qed

lemma POST_full_errors:
  "errors (progress (snd (POST_full ex defs now w)))
     = errors (prog (snd (run_nodes ex defs 0 (nodes w) (initial_state (start_run now w)))))"
proof -
  obtain ns st where
    r: "run_nodes ex defs 0 (nodes (start_run now w)) (initial_state (start_run now w)) = (ns, st)"
    by force
  have n: "nodes (start_run now w) = nodes w" by (simp add: start_run_def)
  show ?thesis unfolding POST_full_workflow[OF r] using r by (simp add: n)
qed

lemma state_before_errors_grow:
  assumes "i \<le> length (nodes w)"
  shows "set (errors (prog (state_before ex defs now w i)))
           \<subseteq> set (errors (progress (snd (POST_full ex defs now w))))"
proof -
  have n: "nodes (start_run now w) = nodes w" by (simp add: start_run_def)
  have "nodes w = take i (nodes w) @ drop i (nodes w)" by simp
  then have "run_nodes ex defs 0 (nodes w) (initial_state (start_run now w))
      = run_nodes ex defs 0 (take i (nodes w) @ drop i (nodes w)) (initial_state (start_run now w))"
    by simp
  also have "\<dots> = (case run_nodes ex defs 0 (take i (nodes w)) (initial_state (start_run now w)) of
        (xs', st') \<Rightarrow>
          (case run_nodes ex defs (0 + length (take i (nodes w))) (drop i (nodes w)) st' of
             (ys', st'') \<Rightarrow> (xs' @ ys', st'')))"
    by (simp only: run_nodes_append)
  finally have "snd (run_nodes ex defs 0 (nodes w) (initial_state (start_run now w)))
      = snd (run_nodes ex defs (0 + length (take i (nodes w))) (drop i (nodes w))
               (state_before ex defs now w i))"
    by (simp add: state_before_def n split: prod.splits)
  then show ?thesis
    unfolding POST_full_errors using run_nodes_errors_grow by metis
qed

lemma find_update_node:
  "find (\<lambda>n. node_id n = x) (update_node x f ns)
     = map_option (\<lambda>n. n\<lparr>data := f (data n)\<rparr>) (find (\<lambda>n. node_id n = x) ns)"
  by (induction ns) auto

lemma update_node_length: "length (update_node x f ns) = length ns"
  by (induction ns) auto

lemma update_node_other:
  "i < length ns \<Longrightarrow> node_id (ns ! i) \<noteq> x \<Longrightarrow> update_node x f ns ! i = ns ! i"
proof (induction ns arbitrary: i)
  case Nil
  then show ?case by simp
next
  case (Cons n ns)
  then show ?case by (cases i) auto
qed




lemma Object_keys_subst_obj:
  "Object_keys (subst d c (JObj qs)) = Inr (map fst qs)"
  by (simp add: Object_keys_def own_props_def comp_def case_prod_unfold)






lemma generateExecutionSummary_base:
  "generateExecutionSummary [] (base_context w)
     = Inr \<lparr>agentsExecuted = 0, successfulAgents = 0, storyAnalyzed = False,
            knowledgeGraphBuilt = False, timelineAnalyzed = False, continuityChecked = False,
            suggestionsGenerated = False, teaserCreated = False, highlights = []\<rparr>"
  by (simp add: generateExecutionSummary_def base_context_def bind_e_def)

lemma POST_full_empty:
  assumes "nodes w = []"
  shows "POST_full ex defs now w
     = (FullResponse False
          (w\<lparr>wf_status := ''error'', lastRun := Some now,
             progress := \<lparr>currentNode = None, completedNodes = [], totalNodes = 0, errors = []\<rparr>,
             analysisContext := base_context w\<rparr>)
          []
          \<lparr>agentsExecuted = 0, successfulAgents = 0, storyAnalyzed = False,
            knowledgeGraphBuilt = False, timelineAnalyzed = False, continuityChecked = False,
            suggestionsGenerated = False, teaserCreated = False, highlights = []\<rparr>,
        w\<lparr>wf_status := ''error'', lastRun := Some now,
           progress := \<lparr>currentNode = None, completedNodes = [], totalNodes = 0, errors = []\<rparr>,
           analysisContext := base_context w\<rparr>)"
proof -
  have b: "base_context (start_run now w) = base_context w"
    by (simp add: base_context_def start_run_def)
  have w: "w\<lparr>nodes := []\<rparr> = w" using assms by simp
  have s: "start_run now w
      = w\<lparr>wf_status := ''running'', lastRun := Some now,
           progress := \<lparr>currentNode = None, completedNodes = [], totalNodes = 0, errors = []\<rparr>\<rparr>"
    using assms by (simp add: start_run_def)
  show ?thesis
    unfolding POST_full_def Let_def
    using assms generateExecutionSummary_base[of w]
    by (simp add: s initial_state_def base_context_def) 
qed


subsection \<open>Objects, slots and the collected context\<close>

lemma is_context_obj: "is_context c \<Longrightarrow> \<exists>ps. c = JObj ps"
  by (cases c) (simp_all add: is_context_def own_prop_def)


lemma is_context_set_prop:
  "is_context c \<Longrightarrow> k \<noteq> ''previousResults'' \<Longrightarrow> is_context (set_prop c k v)"
  by (cases c) (simp_all add: is_context_def own_prop_def set_prop_def AList.update_conv')

lemma is_context_record_result: "is_context c \<Longrightarrow> is_context (record_result k r c)"
  by (cases c)
    (auto simp: is_context_def own_prop_def set_prop_def record_result_def AList.update_conv'
      split: option.splits jsval.splits)




lemma restore_result_slot_of:
  "restore_result n c =
     (case slot_of (agentType (data n)) of
        Some s \<Rightarrow> set_prop (record_result (agentType (data n)) (result (data n)) c) s (result (data n))
      | None \<Rightarrow> record_result (agentType (data n)) (result (data n)) c)"
  by (simp add: restore_result_def slot_of_def Let_def)

lemma slot_of_not_previous: "slot_of k = Some s \<Longrightarrow> s \<noteq> ''previousResults''"
  by (auto simp: slot_of_def split: if_splits)



lemma is_context_restore_result: "is_context c \<Longrightarrow> is_context (restore_result n c)"
  by (auto simp: restore_result_slot_of is_context_record_result is_context_set_prop
      slot_of_not_previous split: option.splits)








lemma is_context_collect_results: "is_context c \<Longrightarrow> is_context (collect_results x ns c)"
  by (induction ns arbitrary: c) (simp_all add: is_context_restore_result)







subsection \<open>The execution summary\<close>












subsection \<open>The output formatter\<close>

lemma serialize_acyclic:
  "acyclic v \<Longrightarrow> \<exists>r. serialize ind v = Inr r"
  "list_all acyclic vs \<Longrightarrow> \<exists>rs. serialize_elems ind vs = Inr rs"
  "list_all (\<lambda>p. acyclic (snd p)) ps \<Longrightarrow> \<exists>rs. serialize_props ind ps = Inr rs"
proof (induction ind v and ind vs and ind ps rule: serialize_serialize_elems_serialize_props.induct)
qed (auto split: sum.splits)

lemma generic_rendering_acyclic:
  assumes "acyclic r"
  shows "\<exists>v. generic_rendering r = Inr v"
proof -
  obtain x where "serialize [] r = Inr x" using serialize_acyclic(1)[OF assms] by blast
  then have "\<exists>v. JSON_stringify r = Inr v"
    by (cases x) (simp_all add: JSON_stringify_def)
  then show ?thesis by (cases r) (simp_all add: generic_rendering_def)
qed

text \<open>On a result that is acyclic the formatter returns for every agent type: whatever the
  \<open>switch\<close> throws, the generic rendering of the \<open>catch\<close> block succeeds.\<close>

lemma formatAgentOutput_total_on_acyclic:
  "acyclic r \<Longrightarrow> \<exists>v. formatAgentOutput agentKind r = Inr v"
  using generic_rendering_acyclic[of r]
  by (cases "format_switch agentKind r") (auto simp: formatAgentOutput_def)

lemma formatAgentOutput_total_on_acyclic_example:
  "acyclic JNull \<and> formatAgentOutput ''story-intelligence'' JNull = Inr (JStr ''null'')
   \<and> (\<exists>v. formatAgentOutput ''story-intelligence'' JNull = Inr v)"
proof -
  have h: "acyclic JNull" by simp
  have e: "formatAgentOutput ''story-intelligence'' JNull = Inr (JStr ''null'')" by code_simp
  show ?thesis
    using h e formatAgentOutput_total_on_acyclic[OF h, of "''story-intelligence''"] by blast
qed

text \<open>For an agent type outside the seven of the \<open>switch\<close> the formatter is the generic
  rendering: the result itself when it is a string, its \<open>JSON.stringify\<close> dump otherwise.\<close>

lemma formatAgentOutput_unknown_kind:
  "agentKind \<notin> set [''story-intelligence'', ''knowledge-graph'', ''temporal-reasoning'',
                      ''continuity-validator'', ''creative-coauthor'', ''intelligent-recall'',
                      ''cinematic-teaser'']
   \<Longrightarrow> formatAgentOutput agentKind r = generic_rendering r"
  by (cases "generic_rendering r") (simp_all add: formatAgentOutput_def format_switch_def)

lemma formatAgentOutput_unknown_kind_example:
  "''custom-agent'' \<notin> set [''story-intelligence'', ''knowledge-graph'', ''temporal-reasoning'',
                      ''continuity-validator'', ''creative-coauthor'', ''intelligent-recall'',
                      ''cinematic-teaser'']
   \<and> formatAgentOutput ''custom-agent'' noir = generic_rendering noir
   \<and> generic_rendering noir
       = Inr (JStr (''{\<newline>  '' @ [CHR 0x22] @ ''genre'' @ [CHR 0x22] @ '': '' @ [CHR 0x22]
                    @ ''noir'' @ [CHR 0x22] @ ''\<newline>}''))
   \<and> formatAgentOutput ''custom-agent'' (JStr ''plain text'') = Inr (JStr ''plain text'')"
proof -
  have h: "''custom-agent'' \<notin> set [''story-intelligence'', ''knowledge-graph'', ''temporal-reasoning'',
                      ''continuity-validator'', ''creative-coauthor'', ''intelligent-recall'',
                      ''cinematic-teaser'']"
    by simp
  have g: "generic_rendering noir
       = Inr (JStr (''{\<newline>  '' @ [CHR 0x22] @ ''genre'' @ [CHR 0x22] @ '': '' @ [CHR 0x22]
                    @ ''noir'' @ [CHR 0x22] @ ''\<newline>}''))"
    by code_simp
  have s: "formatAgentOutput ''custom-agent'' (JStr ''plain text'') = Inr (JStr ''plain text'')"
    by code_simp
  show ?thesis
    using h g s formatAgentOutput_unknown_kind[OF h, of noir] by blast
qed

subsection \<open>Counting completed and failed nodes\<close>

text \<open>Claim C1. After a full run every node is counted once, in \<open>completedNodes\<close> or in
  \<open>errors\<close>: the two lengths add up to the number of nodes. The final status is \<open>error\<close>
  exactly when no node completed, \<open>partial\<close> exactly when some node completed and some node
  failed, and \<open>completed\<close> exactly when some node completed and none failed. This holds for
  every number of nodes, so in particular for one node or more.\<close>

theorem full_run_counts_and_status:
  "length (completedNodes (progress (snd (POST_full ex defs now w))))
     + length (errors (progress (snd (POST_full ex defs now w)))) = length (nodes w)
   \<and> (wf_status (snd (POST_full ex defs now w)) = ''error''
        \<longleftrightarrow> completedNodes (progress (snd (POST_full ex defs now w))) = [])
   \<and> (wf_status (snd (POST_full ex defs now w)) = ''partial''
        \<longleftrightarrow> completedNodes (progress (snd (POST_full ex defs now w))) \<noteq> []
            \<and> errors (progress (snd (POST_full ex defs now w))) \<noteq> [])
   \<and> (wf_status (snd (POST_full ex defs now w)) = ''completed''
        \<longleftrightarrow> completedNodes (progress (snd (POST_full ex defs now w))) \<noteq> []
            \<and> errors (progress (snd (POST_full ex defs now w))) = [])"
proof -
  obtain ns st where r: "run_nodes ex defs 0 (nodes (start_run now w)) (initial_state (start_run now w)) = (ns, st)"
    by force
  have c: "length (completedNodes (prog st)) + length (errors (prog st)) = length (nodes w)"
    using run_nodes_count[OF r] by (simp add: start_run_def initial_state_def)
  show ?thesis unfolding POST_full_workflow[OF r] using c by simp
qed

subsection \<open>A failed invocation in a full run\<close>

text \<open>Claim C2, as stated, fails. Two nodes have the agent type \<open>story-intelligence\<close>; the
  first succeeds and the invocation for the second fails. The agent type of the failed node
  is then a key of the \<open>previousResults\<close> that the third node receives.\<close>

theorem failed_kind_still_recorded:
  "scripted_agent abc_script 1 (agentType (data (twice_nodes ! 1)))
       (ctx (state_before (scripted_agent abc_script) no_definitions 0 (draft twice_nodes) 1))
     = Inl (AgentError ''timeout'')
   \<and> previous_result
         (ctx (state_before (scripted_agent abc_script) no_definitions 0 (draft twice_nodes) 2))
         (agentType (data (twice_nodes ! 1)))
       = Some noir"
  by code_simp

text \<open>Claim C2, amended. When the invocation made for the node at position \<open>i\<close> of a full run
  fails, the context passed on to the next node is the context that was passed to the failed
  node. So the failed node adds nothing to \<open>previousResults\<close>: the entry under any key \<open>k\<close>,
  its own agent type included, is what it was when the failed node was entered.\<close>

theorem failed_invocation_keeps_context:
  assumes "i < length (nodes w)"
    and "ex i (agentType (data (nodes w ! i))) (ctx (state_before ex defs now w i)) = Inl e"
  shows "ctx (state_before ex defs now w (Suc i)) = ctx (state_before ex defs now w i)
       \<and> previous_result (ctx (state_before ex defs now w (Suc i))) k
           = previous_result (ctx (state_before ex defs now w i)) k"
  using run_node_failed_ctx[of "ex i" "nodes w ! i" "state_before ex defs now w i" e defs] assms(2)
    state_before_Suc[OF assms(1), of ex defs now] by simp

theorem failed_invocation_keeps_context_witness:
  "1 < length (nodes (draft abc_nodes))
   \<and> scripted_agent abc_script 1 (agentType (data (nodes (draft abc_nodes) ! 1)))
         (ctx (state_before (scripted_agent abc_script) no_definitions 0 (draft abc_nodes) 1))
       = Inl (AgentError ''timeout'')
   \<and> ctx (state_before (scripted_agent abc_script) no_definitions 0 (draft abc_nodes) (Suc 1))
       = ctx (state_before (scripted_agent abc_script) no_definitions 0 (draft abc_nodes) 1)
   \<and> previous_result
         (ctx (state_before (scripted_agent abc_script) no_definitions 0 (draft abc_nodes) (Suc 1)))
         ''knowledge-graph''
       = previous_result
           (ctx (state_before (scripted_agent abc_script) no_definitions 0 (draft abc_nodes) 1))
           ''knowledge-graph''"
proof -
  have h1: "1 < length (nodes (draft abc_nodes))" by code_simp
  have h2: "scripted_agent abc_script 1 (agentType (data (nodes (draft abc_nodes) ! 1)))
         (ctx (state_before (scripted_agent abc_script) no_definitions 0 (draft abc_nodes) 1))
       = Inl (AgentError ''timeout'')" by code_simp
  show ?thesis
    using h1 h2 failed_invocation_keeps_context[where ex = "scripted_agent abc_script" and i = 1
        and w = "draft abc_nodes" and defs = no_definitions and now = 0
        and e = "AgentError ''timeout''" and k = "''knowledge-graph''"] by simp
qed

subsection \<open>The formatter on a self-referential result\<close>

text \<open>Claim C3. The claim says that \<open>formatAgentOutput\<close> never throws, self-referential results
  included. The code throws on them. The object \<open>self_referential\<close> holds itself under the
  key \<open>self\<close>. With an agent type outside the \<open>switch\<close>, \<open>JSON.stringify\<close> throws in the
  \<open>default\<close> branch; the \<open>catch\<close> block calls \<open>JSON.stringify\<close> on the same value again, and
  that \<open>TypeError\<close> leaves the function. With the agent type \<open>intelligent-recall\<close> the
  \<open>switch\<close> throws because an object has no \<open>slice\<close> method, and the \<open>catch\<close> block throws
  in the same way.\<close>

theorem formatAgentOutput_throws_on_cycle:
  "formatAgentOutput ''custom-agent'' self_referential
     = Inl (TypeError ''Converting circular structure to JSON'')
   \<and> formatAgentOutput ''intelligent-recall'' self_referential
     = Inl (TypeError ''Converting circular structure to JSON'')
   \<and> get_prop self_referential ''self'' = Inr self_referential"
  by code_simp

subsection \<open>The context of a single-node run\<close>




subsection \<open>What a single-node run leaves alone\<close>

text \<open>Claim C5. A single-node run for the node id \<open>x\<close> changes neither \<open>progress\<close> nor the
  status of the workflow, and it leaves every node whose id is not \<open>x\<close> as it was, with its
  status, result, output and error. This holds for every outcome of the invocation: the agent
  \<open>sx\<close> is arbitrary.\<close>

theorem single_run_frame:
  "progress (snd (executeSingleAgent sx w x req)) = progress w
   \<and> wf_status (snd (executeSingleAgent sx w x req)) = wf_status w
   \<and> length (nodes (snd (executeSingleAgent sx w x req))) = length (nodes w)
   \<and> (i < length (nodes w) \<and> node_id (nodes w ! i) \<noteq> x
        \<longrightarrow> nodes (snd (executeSingleAgent sx w x req)) ! i = nodes w ! i)"
  by (simp add: executeSingleAgent_def Let_def single_catch_def update_node_other
      update_node_length split: option.splits sum.splits prod.splits)

theorem single_run_frame_witness:
  "(0 < length (nodes (draft rerun_nodes)) \<and> node_id (nodes (draft rerun_nodes) ! 0) \<noteq> ''B'')
   \<and> progress (snd (executeSingleAgent (scripted_agent abc_script 1) (draft rerun_nodes) ''B'' None))
       = progress (draft rerun_nodes)
   \<and> wf_status (snd (executeSingleAgent (scripted_agent abc_script 1) (draft rerun_nodes) ''B'' None))
       = wf_status (draft rerun_nodes)
   \<and> length (nodes (snd (executeSingleAgent (scripted_agent abc_script 1) (draft rerun_nodes) ''B'' None)))
       = length (nodes (draft rerun_nodes))
   \<and> nodes (snd (executeSingleAgent (scripted_agent abc_script 1) (draft rerun_nodes) ''B'' None)) ! 0
       = nodes (draft rerun_nodes) ! 0"
proof -
  have h: "0 < length (nodes (draft rerun_nodes)) \<and> node_id (nodes (draft rerun_nodes) ! 0) \<noteq> ''B''"
    by code_simp
  show ?thesis
    using h single_run_frame[where sx = "scripted_agent abc_script 1" and w = "draft rerun_nodes"
        and x = "''B''" and req = None and i = 0]
    by blast
qed

subsection \<open>The mapping from agent kinds to slots\<close>




subsection \<open>The node after a failed invocation\<close>

text \<open>Claim C7, as stated, fails. The node \<open>B\<close> carries the result and the output of an earlier
  run. A single-node run for \<open>B\<close> fails. The node is left with status \<open>error\<close> and with its
  earlier result and output: they are not unset.\<close>

theorem failed_rerun_keeps_result:
  "scripted_agent abc_script 1 (effectiveAgentType None (done_node ''B'' ''continuity-validator'' score82))
       (collect_results ''B'' (nodes (draft rerun_nodes)) (base_context (draft rerun_nodes)))
     = Inl (AgentError ''timeout'')
   \<and> map_option (\<lambda>n. status (data n))
         (find (\<lambda>n. node_id n = ''B'')
            (nodes (snd (executeSingleAgent (scripted_agent abc_script 1) (draft rerun_nodes) ''B'' None))))
       = Some ''error''
   \<and> map_option (\<lambda>n. result (data n))
         (find (\<lambda>n. node_id n = ''B'')
            (nodes (snd (executeSingleAgent (scripted_agent abc_script 1) (draft rerun_nodes) ''B'' None))))
       = Some score82
   \<and> map_option (\<lambda>n. node_output (data n))
         (find (\<lambda>n. node_id n = ''B'')
            (nodes (snd (executeSingleAgent (scripted_agent abc_script 1) (draft rerun_nodes) ''B'' None))))
       = Some (JStr ''rendered'')
   \<and> score82 \<noteq> JUndefined"
  by code_simp

text \<open>Claim C7, amended. When the invocation made for a node fails, the node is left with
  status \<open>error\<close> and with the message of the failure as its \<open>error\<close>; its \<open>result\<close> and its
  \<open>output\<close> are not written, so they are what they were before the invocation and remain unset
  only when they were unset. In a full run (first part) the failure is also appended to
  \<open>progress.errors\<close>; \<open>inp\<close> is the input snapshot taken before the invocation. In a single-node
  run (second part) the node is the one that \<open>find\<close> returns for the requested id.\<close>

theorem failed_invocation_marks_node:
  "(i < length (nodes w)
      \<and> input_of_context (ctx (state_before ex defs now w i)) = Inr inp
      \<and> ex i (agentType (data (nodes w ! i))) (ctx (state_before ex defs now w i)) = Inl e
    \<longrightarrow> status (data (nodes (snd (POST_full ex defs now w)) ! i)) = ''error''
        \<and> error (data (nodes (snd (POST_full ex defs now w)) ! i)) = Some (message e)
        \<and> result (data (nodes (snd (POST_full ex defs now w)) ! i)) = result (data (nodes w ! i))
        \<and> node_output (data (nodes (snd (POST_full ex defs now w)) ! i))
            = node_output (data (nodes w ! i))
        \<and> \<lparr>err_nodeId = node_id (nodes w ! i), err_error = message e\<rparr>
            \<in> set (errors (progress (snd (POST_full ex defs now w)))))
   \<and> (find (\<lambda>n. node_id n = x) (nodes sw) = Some nd
      \<and> sx (effectiveAgentType req nd) (collect_results x (nodes sw) (base_context sw)) = Inl e'
    \<longrightarrow> fst (executeSingleAgent sx sw x req) = SingleFailure (message e')
        \<and> find (\<lambda>n. node_id n = x) (nodes (snd (executeSingleAgent sx sw x req)))
            = Some (nd\<lparr>data := (data nd)\<lparr>status := ''error'', error := Some (message e')\<rparr>\<rparr>))"
proof (intro conjI impI)
  assume a: "i < length (nodes w)
      \<and> input_of_context (ctx (state_before ex defs now w i)) = Inr inp
      \<and> ex i (agentType (data (nodes w ! i))) (ctx (state_before ex defs now w i)) = Inl e"
  let ?st = "state_before ex defs now w i"
  have n: "nodes (start_run now w) = nodes w" by (simp add: start_run_def)
  have nd: "nodes (snd (POST_full ex defs now w)) ! i
      = (nodes w ! i)\<lparr>data := (data (nodes w ! i))\<lparr>status := ''error'', node_input := Some inp,
                                                  error := Some (message e)\<rparr>\<rparr>"
    using a nth_run_nodes[of i "nodes w" ex defs "initial_state (start_run now w)"]
      run_node_failed_node[of ?st inp "ex i" "nodes w ! i" e defs]
    by (simp add: POST_full_nodes state_before_def n)
  show "status (data (nodes (snd (POST_full ex defs now w)) ! i)) = ''error''"
    by (simp add: nd)
  show "error (data (nodes (snd (POST_full ex defs now w)) ! i)) = Some (message e)"
    by (simp add: nd)
  show "result (data (nodes (snd (POST_full ex defs now w)) ! i)) = result (data (nodes w ! i))"
    by (simp add: nd)
  show "node_output (data (nodes (snd (POST_full ex defs now w)) ! i))
            = node_output (data (nodes w ! i))"
    by (simp add: nd)
  have "\<lparr>err_nodeId = node_id (nodes w ! i), err_error = message e\<rparr>
          \<in> set (errors (prog (state_before ex defs now w (Suc i))))"
    using a state_before_Suc[of i w ex defs now]
      run_node_failed_errors[of ?st inp "ex i" "nodes w ! i" e defs]
    by simp
  moreover have "Suc i \<le> length (nodes w)" using a by simp
  ultimately show "\<lparr>err_nodeId = node_id (nodes w ! i), err_error = message e\<rparr>
            \<in> set (errors (progress (snd (POST_full ex defs now w))))"
    using state_before_errors_grow[of "Suc i" w ex defs now] by blast
next
  assume b: "find (\<lambda>n. node_id n = x) (nodes sw) = Some nd
      \<and> sx (effectiveAgentType req nd) (collect_results x (nodes sw) (base_context sw)) = Inl e'"
  then show "fst (executeSingleAgent sx sw x req) = SingleFailure (message e')"
    by (simp add: executeSingleAgent_def Let_def single_catch_def)
  from b show "find (\<lambda>n. node_id n = x) (nodes (snd (executeSingleAgent sx sw x req)))
            = Some (nd\<lparr>data := (data nd)\<lparr>status := ''error'', error := Some (message e')\<rparr>\<rparr>)"
    by (simp add: executeSingleAgent_def Let_def single_catch_def find_update_node)
qed

theorem failed_invocation_marks_node_witness:
  "(1 < length (nodes (draft abc_nodes))
      \<and> input_of_context (ctx (state_before (scripted_agent abc_script) no_definitions 0 (draft abc_nodes) 1))
          = Inr \<lparr>storyBrief = ''A detective returns to her home town...'', hasManuscript = False,
                 previousAgents = [''story-intelligence'']\<rparr>
      \<and> scripted_agent abc_script 1 (agentType (data (nodes (draft abc_nodes) ! 1)))
            (ctx (state_before (scripted_agent abc_script) no_definitions 0 (draft abc_nodes) 1))
          = Inl (AgentError ''timeout''))
   \<and> (status (data (nodes (snd (POST_full (scripted_agent abc_script) no_definitions 0 (draft abc_nodes))) ! 1)) = ''error''
        \<and> error (data (nodes (snd (POST_full (scripted_agent abc_script) no_definitions 0 (draft abc_nodes))) ! 1))
            = Some (message (AgentError ''timeout''))
        \<and> result (data (nodes (snd (POST_full (scripted_agent abc_script) no_definitions 0 (draft abc_nodes))) ! 1))
            = result (data (nodes (draft abc_nodes) ! 1))
        \<and> node_output (data (nodes (snd (POST_full (scripted_agent abc_script) no_definitions 0 (draft abc_nodes))) ! 1))
            = node_output (data (nodes (draft abc_nodes) ! 1))
        \<and> \<lparr>err_nodeId = node_id (nodes (draft abc_nodes) ! 1), err_error = message (AgentError ''timeout'')\<rparr>
            \<in> set (errors (progress (snd (POST_full (scripted_agent abc_script) no_definitions 0 (draft abc_nodes))))))
   \<and> (find (\<lambda>n. node_id n = ''B'') (nodes (draft rerun_nodes))
          = Some (done_node ''B'' ''continuity-validator'' score82)
      \<and> scripted_agent abc_script 1 (effectiveAgentType None (done_node ''B'' ''continuity-validator'' score82))
           (collect_results ''B'' (nodes (draft rerun_nodes))
              (base_context (draft rerun_nodes)))
          = Inl (AgentError ''timeout''))
   \<and> (fst (executeSingleAgent (scripted_agent abc_script 1)
              (draft rerun_nodes) ''B'' None)
          = SingleFailure (message (AgentError ''timeout''))
        \<and> find (\<lambda>n. node_id n = ''B'')
             (nodes (snd (executeSingleAgent (scripted_agent abc_script 1)
                (draft rerun_nodes) ''B'' None)))
            = Some ((done_node ''B'' ''continuity-validator'' score82)
                     \<lparr>data := (data (done_node ''B'' ''continuity-validator'' score82))
                        \<lparr>status := ''error'', error := Some (message (AgentError ''timeout''))\<rparr>\<rparr>))"
proof -
  have h1: "1 < length (nodes (draft abc_nodes))
      \<and> input_of_context (ctx (state_before (scripted_agent abc_script) no_definitions 0 (draft abc_nodes) 1))
          = Inr \<lparr>storyBrief = ''A detective returns to her home town...'', hasManuscript = False,
                 previousAgents = [''story-intelligence'']\<rparr>
      \<and> scripted_agent abc_script 1 (agentType (data (nodes (draft abc_nodes) ! 1)))
            (ctx (state_before (scripted_agent abc_script) no_definitions 0 (draft abc_nodes) 1))
          = Inl (AgentError ''timeout'')"
    by code_simp
  have h2: "find (\<lambda>n. node_id n = ''B'') (nodes (draft rerun_nodes))
          = Some (done_node ''B'' ''continuity-validator'' score82)
      \<and> scripted_agent abc_script 1 (effectiveAgentType None (done_node ''B'' ''continuity-validator'' score82))
           (collect_results ''B'' (nodes (draft rerun_nodes))
              (base_context (draft rerun_nodes)))
          = Inl (AgentError ''timeout'')"
    by code_simp
  show ?thesis
    using h1 h2
      failed_invocation_marks_node[where i = 1 and w = "draft abc_nodes"
        and ex = "scripted_agent abc_script" and defs = no_definitions and now = 0
        and inp = "\<lparr>storyBrief = ''A detective returns to her home town...'', hasManuscript = False,
                 previousAgents = [''story-intelligence'']\<rparr>"
        and e = "AgentError ''timeout''" and x = "''B''"
        and nd = "done_node ''B'' ''continuity-validator'' score82"
        and sx = "scripted_agent abc_script 1" and req = None and e' = "AgentError ''timeout''"
        and sw = "draft rerun_nodes"]
    by blast
qed

subsection \<open>What the summary counts\<close>




subsection \<open>The input snapshot\<close>




subsection \<open>A workflow without nodes\<close>

text \<open>Claim C10. A request for a full run of a workflow that has no nodes is served, not
  rejected. Progress is reset to no current node, no completed nodes, a total of 0 and no
  errors; the run ends with status \<open>error\<close>; the response has \<open>success\<close> false and an empty
  list of results. No agent is invoked: the outcome does not depend on \<open>ex\<close>.\<close>

theorem empty_workflow_full_run:
  "session = Some u \<and> workflowId body = Some wid \<and> wid \<noteq> [] \<and> findOne wid u = Some w
     \<and> nodes w = [] \<and> (singleAgentId body = None \<or> singleAgentId body = Some [])
   \<longrightarrow> progress (start_run now w)
         = \<lparr>currentNode = None, completedNodes = [], totalNodes = 0, errors = []\<rparr>
       \<and> POST session body findOne ex defs now
         = (FullResponse False
              (w\<lparr>wf_status := ''error'', lastRun := Some now,
                 progress := \<lparr>currentNode = None, completedNodes = [], totalNodes = 0, errors = []\<rparr>,
                 analysisContext := base_context w\<rparr>)
              []
              \<lparr>agentsExecuted = 0, successfulAgents = 0, storyAnalyzed = False,
                knowledgeGraphBuilt = False, timelineAnalyzed = False, continuityChecked = False,
                suggestionsGenerated = False, teaserCreated = False, highlights = []\<rparr>,
            Some (w\<lparr>wf_status := ''error'', lastRun := Some now,
                    progress := \<lparr>currentNode = None, completedNodes = [], totalNodes = 0, errors = []\<rparr>,
                    analysisContext := base_context w\<rparr>))"
  by (auto simp: POST_def POST_full_empty start_run_def)

theorem empty_workflow_full_run_witness:
  "(Some ''u1'' = Some ''u1''
     \<and> workflowId \<lparr>workflowId = Some ''w1'', singleAgentId = None, requestedAgentType = None\<rparr>
         = Some ''w1''
     \<and> ''w1'' \<noteq> []
     \<and> (\<lambda>wid u. if wid = ''w1'' \<and> u = ''u1'' then Some (draft []) else None) ''w1'' ''u1''
         = Some (draft [])
     \<and> nodes (draft []) = []
     \<and> singleAgentId \<lparr>workflowId = Some ''w1'', singleAgentId = None, requestedAgentType = None\<rparr>
         = None)
   \<and> progress (start_run 7 (draft []))
       = \<lparr>currentNode = None, completedNodes = [], totalNodes = 0, errors = []\<rparr>
   \<and> POST (Some ''u1'')
         \<lparr>workflowId = Some ''w1'', singleAgentId = None, requestedAgentType = None\<rparr>
         (\<lambda>wid u. if wid = ''w1'' \<and> u = ''u1'' then Some (draft []) else None)
         (scripted_agent abc_script) no_definitions 7
       = (FullResponse False
            ((draft [])\<lparr>wf_status := ''error'', lastRun := Some 7,
               progress := \<lparr>currentNode = None, completedNodes = [], totalNodes = 0, errors = []\<rparr>,
               analysisContext := base_context (draft [])\<rparr>)
            []
            \<lparr>agentsExecuted = 0, successfulAgents = 0, storyAnalyzed = False,
              knowledgeGraphBuilt = False, timelineAnalyzed = False, continuityChecked = False,
              suggestionsGenerated = False, teaserCreated = False, highlights = []\<rparr>,
          Some ((draft [])\<lparr>wf_status := ''error'', lastRun := Some 7,
                  progress := \<lparr>currentNode = None, completedNodes = [], totalNodes = 0, errors = []\<rparr>,
                  analysisContext := base_context (draft [])\<rparr>))"
proof -
  have h: "Some ''u1'' = Some ''u1''
     \<and> workflowId \<lparr>workflowId = Some ''w1'', singleAgentId = None, requestedAgentType = None\<rparr>
         = Some ''w1''
     \<and> ''w1'' \<noteq> []
     \<and> (\<lambda>wid u. if wid = ''w1'' \<and> u = ''u1'' then Some (draft []) else None) ''w1'' ''u1''
         = Some (draft [])
     \<and> nodes (draft []) = []
     \<and> singleAgentId \<lparr>workflowId = Some ''w1'', singleAgentId = None, requestedAgentType = None\<rparr>
         = None"
    by (simp add: draft_def)
  show ?thesis
    using h
      empty_workflow_full_run[where session = "Some ''u1''" and u = "''u1''"
        and body = "\<lparr>workflowId = Some ''w1'', singleAgentId = None, requestedAgentType = None\<rparr>"
        and wid = "''w1''"
        and findOne = "\<lambda>wid u. if wid = ''w1'' \<and> u = ''u1'' then Some (draft []) else None"
        and w = "draft []" and now = 7 and ex = "scripted_agent abc_script"
        and defs = no_definitions]
    by blast
qed

end
